theory Spec2Isabelle
  imports Main "HOL-Library.Word" "HOL-Library.Sublist"
begin

section \<open>Job submission options of the Beam Go SDK (package jobopts)\<close>

text \<open>
  The package keeps six command-line flags as process-wide variables and offers four
  accessors over them: \<open>GetEndpoint\<close>, \<open>GetJobName\<close>, \<open>GetContainerImage\<close> and
  \<open>GetExperiments\<close>. The flags are embedded as the fields of a record, the accessors
  as functions that take the record and return their result together with the record
  as they leave it. What an accessor reads from outside the flags (the clock, the
  process environment, the logging context) is an argument of the embedded function.
\<close>

subsection \<open>Go library functions the accessors call\<close>

subsubsection \<open>\<open>fmt\<close>: the verb \<open>%v\<close> on an \<open>int64\<close>\<close>

text \<open>
  \<open>%v\<close> prints an integer in base 10, with a leading minus sign when it is negative
  (\<open>strconv.FormatInt(i, 10)\<close>). \<open>formatBits\<close> produces the digits of the magnitude,
  most significant first, each digit read from the string of the ten digit characters.
\<close>

definition digits :: string where
  "digits = ''0123456789''"

fun formatBits :: "nat \<Rightarrow> string" where
  "formatBits u = (if u < 10 then [digits ! u] else formatBits (u div 10) @ [digits ! (u mod 10)])"

declare formatBits.simps [simp del]

definition FormatInt :: "int \<Rightarrow> string" where
  "FormatInt i = (if i < 0 then CHR ''-'' # formatBits (nat (- i)) else formatBits (nat i))"

subsubsection \<open>\<open>os\<close>: \<open>Getenv\<close>, \<open>Expand\<close> and \<open>ExpandEnv\<close>\<close>

text \<open>
  The process environment is a partial map from variable names to values.
  \<open>Getenv\<close> returns the empty string for a variable that is not set.
\<close>

type_synonym environ = "string \<rightharpoonup> string"

definition Getenv :: "environ \<Rightarrow> string \<Rightarrow> string" where
  "Getenv env key = (case env key of None \<Rightarrow> [] | Some v \<Rightarrow> v)"

definition isShellSpecialVar :: "char \<Rightarrow> bool" where
  "isShellSpecialVar c \<longleftrightarrow> c \<in> set ''*#$@!?-0123456789''"

definition isAlphaNum :: "char \<Rightarrow> bool" where
  "isAlphaNum c \<longleftrightarrow>
     (let n = (of_char c :: nat) in
      c = CHR ''_'' \<or> (48 \<le> n \<and> n \<le> 57) \<or> (97 \<le> n \<and> n \<le> 122) \<or> (65 \<le> n \<and> n \<le> 90))"

fun IndexByte :: "string \<Rightarrow> char \<Rightarrow> nat option" where
  "IndexByte [] c = None"
| "IndexByte (x # xs) c = (if x = c then Some 0 else map_option Suc (IndexByte xs c))"

text \<open>
  \<open>getShellName\<close> receives the text after a dollar sign and returns the name that
  starts it together with the number of bytes the name and its punctuation take:
  a name in braces, a one-character special variable, or the longest run of
  letters, digits and underscores. \<open>Expand\<close> calls it on a non-empty text only.
\<close>

definition getShellName :: "string \<Rightarrow> string \<times> nat" where
  "getShellName s =
     (case s of
        [] \<Rightarrow> ([], 0)
      | c # r \<Rightarrow>
          if c = CHR ''{'' then
            (if 2 < length s \<and> isShellSpecialVar (s ! 1) \<and> s ! 2 = CHR ''}'' then ([s ! 1], 3)
             else (case IndexByte r (CHR ''}'') of
                     None \<Rightarrow> ([], 1)
                   | Some k \<Rightarrow> if k = 0 then ([], 2) else (take k r, k + 2)))
          else if isShellSpecialVar c then ([c], 1)
          else (takeWhile isAlphaNum s, length (takeWhile isAlphaNum s)))"

text \<open>
  \<open>Expand\<close> copies its text and replaces each \<open>$name\<close> and \<open>${name}\<close> by what the
  mapping gives for the name. A dollar sign at the very end is copied; a dollar sign
  followed by no name is copied too, and malformed braces are dropped. The replacement
  text is not expanded again.
\<close>

fun Expand :: "(string \<Rightarrow> string) \<Rightarrow> string \<Rightarrow> string" where
  "Expand mapping [] = []"
| "Expand mapping (c # r) =
     (if c = CHR ''$'' \<and> r \<noteq> [] then
        (let (name, w) = getShellName r in
           (if name = [] \<and> 0 < w then [] else if name = [] then [c] else mapping name)
             @ Expand mapping (drop w r))
      else c # Expand mapping r)"

definition ExpandEnv :: "environ \<Rightarrow> string \<Rightarrow> string" where
  "ExpandEnv env s = Expand (Getenv env) s"

subsubsection \<open>\<open>strings\<close>: \<open>Split\<close> and \<open>Join\<close> with a one-byte separator\<close>

text \<open>
  \<open>strings.Split(s, sep)\<close> with a separator of one byte counts the occurrences of
  the byte, allocates one piece more than that, and cuts the text at the first
  occurrence again and again (\<open>genSplit\<close>); what is left is the last piece. The first
  argument of \<open>genSplit\<close> is the number of cuts still to be made.
\<close>

definition Count :: "string \<Rightarrow> char \<Rightarrow> nat" where
  "Count s c = length (filter (\<lambda>x. x = c) s)"

fun genSplit :: "nat \<Rightarrow> string \<Rightarrow> char \<Rightarrow> string list" where
  "genSplit 0 s c = [s]"
| "genSplit (Suc n) s c =
     (case IndexByte s c of
        None \<Rightarrow> [s]
      | Some m \<Rightarrow> take m s # genSplit n (drop (Suc m) s) c)"

definition Split :: "string \<Rightarrow> char \<Rightarrow> string list" where
  "Split s c = genSplit (Count s c) s c"

text \<open>
  \<open>strings.Join(elems, sep)\<close> concatenates the elements with the separator between
  each two neighbours; no element gives the empty string.
\<close>

fun Join :: "string list \<Rightarrow> string \<Rightarrow> string" where
  "Join [] sep = []"
| "Join [x] sep = x"
| "Join (x # y # ys) sep = x @ sep @ Join (y # ys) sep"

subsubsection \<open>The logging package of the SDK\<close>

text \<open>
  Modelled from the spec: the function \<open>log.Infof\<close> of the SDK's own logging package,
  whose source is not part of package \<open>jobopts\<close>. The specification describes it as one
  informational-level log emission, parameterized by an ambient context and the
  message. An emission is an entry appended to the sequence of entries emitted so far.
\<close>

datatype severity = SevDebug | SevInfo | SevWarn | SevError

record 'ctx entry =
  entry_ctx :: 'ctx
  entry_severity :: severity
  entry_msg :: string

definition Infof :: "'ctx \<Rightarrow> string \<Rightarrow> 'ctx entry list \<Rightarrow> 'ctx entry list" where
  "Infof ctx msg out = out @ [\<lparr>entry_ctx = ctx, entry_severity = SevInfo, entry_msg = msg\<rparr>]"

subsection \<open>The flags\<close>

text \<open>
  The six flag variables, each a pointer to a cell of its own, and the log entries
  emitted so far. All string flags have the empty string as their default, \<open>Async\<close>
  has \<open>False\<close>.
\<close>

record 'ctx options =
  Endpoint :: string
  JobName :: string
  ContainerImage :: string
  Experiments :: string
  Async :: bool
  InternalJavaRunner :: string
  Emitted :: "'ctx entry list"

text \<open>The flags as \<open>flag.String\<close> and \<open>flag.Bool\<close> leave them when no argument is given.\<close>

definition flagDefaults :: "'ctx options" where
  "flagDefaults =
     \<lparr>Endpoint = [], JobName = [], ContainerImage = [], Experiments = [], Async = False,
      InternalJavaRunner = [], Emitted = []\<rparr>"

subsection \<open>The accessors\<close>

text \<open>
  An error value made by \<open>fmt.Errorf\<close> carries its message; \<open>None\<close> stands for the
  \<open>nil\<close> error.
\<close>

datatype error = Errorf string

definition GetEndpoint :: "'ctx options \<Rightarrow> (string \<times> error option) \<times> 'ctx options" where
  "GetEndpoint st =
     (if Endpoint st = [] then
        (([], Some (Errorf ''no job service endpoint specified. Use --endpoint=<endpoint>'')), st)
      else ((Endpoint st, None), st))"

text \<open>
  \<open>GetJobName\<close> reads the clock only to make up a name; \<open>now\<close> is what
  \<open>time.Now().UnixNano()\<close> returns at this call, a signed 64-bit integer.
\<close>

definition GetJobName :: "64 word \<Rightarrow> 'ctx options \<Rightarrow> string \<times> 'ctx options" where
  "GetJobName now st =
     (let st' = (if JobName st = [] then st\<lparr>JobName := ''go-job-'' @ FormatInt (sint now)\<rparr> else st)
      in (JobName st', st'))"

text \<open>
  \<open>GetContainerImage\<close> reads the environment only to make up an image reference,
  and tells the log when it did.
\<close>

definition GetContainerImage :: "environ \<Rightarrow> 'ctx \<Rightarrow> 'ctx options \<Rightarrow> string \<times> 'ctx options" where
  "GetContainerImage env ctx st =
     (let st' =
        (if ContainerImage st = [] then
           (let img = ExpandEnv env ''$USER-docker-apache.bintray.io/beam/go:latest'';
                st1 = st\<lparr>ContainerImage := img\<rparr>
            in st1\<lparr>Emitted :=
                 Infof ctx (''No container image specified. Using dev image: '' @ [CHR 0x27]
                              @ ContainerImage st1 @ [CHR 0x27]) (Emitted st1)\<rparr>)
         else st)
      in (ContainerImage st', st'))"

text \<open>A \<open>nil\<close> slice has no elements: it is the empty list.\<close>

definition GetExperiments :: "'ctx options \<Rightarrow> string list \<times> 'ctx options" where
  "GetExperiments st =
     (if Experiments st = [] then ([], st) else (Split (Experiments st) (CHR '',''), st))"

section \<open>Properties\<close>

subsection \<open>Facts about the library functions\<close>

lemma formatBits_not_Nil: "formatBits u \<noteq> []"
  by (induction u rule: formatBits.induct) (subst formatBits.simps, simp)

lemma FormatInt_not_Nil: "FormatInt i \<noteq> []"
  by (simp add: FormatInt_def formatBits_not_Nil)

text \<open>Different integers have different decimal renderings.\<close>

lemma digits_inj: "i < 10 \<Longrightarrow> j < 10 \<Longrightarrow> digits ! i = digits ! j \<Longrightarrow> i = j"
proof -
  have d: "distinct digits" and l: "length digits = 10"
    by (simp_all add: digits_def)
  show "i < 10 \<Longrightarrow> j < 10 \<Longrightarrow> digits ! i = digits ! j \<Longrightarrow> i = j"
    using d l by (simp add: nth_eq_iff_index_eq)
qed

lemma formatBits_digits: "set (formatBits u) \<subseteq> set digits"
proof (induction u rule: formatBits.induct)
  case (1 u)
  have l: "length digits = 10" by (simp add: digits_def)
  show ?case
  proof (cases "u < 10")
    case True
    then have "digits ! u \<in> set digits" using l by simp
    then show ?thesis using True by (subst formatBits.simps) simp
  next
    case False
    have "digits ! (u mod 10) \<in> set digits" using l by simp
    then show ?thesis using False 1 by (subst formatBits.simps) simp
  qed
qed

lemma formatBits_inj: "formatBits u = formatBits v \<Longrightarrow> u = v"
proof (induction u arbitrary: v rule: formatBits.induct)
  case (1 u)
  show ?case
  proof (cases "u < 10")
    case True
    show ?thesis
    proof (cases "v < 10")
      case v: True
      from 1(2) True v have "digits ! u = digits ! v"
        by (simp add: formatBits.simps [of u] formatBits.simps [of v])
      then show ?thesis using True v by (rule digits_inj [rotated 2])
    next
      case v: False
      from 1(2) True v have "length (formatBits (v div 10)) = 0"
        by (simp add: formatBits.simps [of u] formatBits.simps [of v])
      then show ?thesis using formatBits_not_Nil [of "v div 10"] by simp
    qed
  next
    case False
    show ?thesis
    proof (cases "v < 10")
      case v: True
      from 1(2) False v have "length (formatBits (u div 10)) = 0"
        by (simp add: formatBits.simps [of u] formatBits.simps [of v])
      then show ?thesis using formatBits_not_Nil [of "u div 10"] by simp
    next
      case v: False
      from 1(2) False v
      have a: "formatBits (u div 10) = formatBits (v div 10)"
        and b: "digits ! (u mod 10) = digits ! (v mod 10)"
        by (simp_all add: formatBits.simps [of u] formatBits.simps [of v])
      from 1(1) [OF False a] have q: "u div 10 = v div 10" .
      from b have r: "u mod 10 = v mod 10"
        by (intro digits_inj) simp_all
      from q r show ?thesis
        by (metis div_mult_mod_eq)
    qed
  qed
qed

lemma FormatInt_inj: "FormatInt i = FormatInt j \<Longrightarrow> i = j"
proof -
  assume e: "FormatInt i = FormatInt j"
  have m: "CHR ''-'' \<notin> set digits" by (simp add: digits_def)
  have hd_pos: "\<And>u. hd (formatBits u) \<noteq> CHR ''-''"
  proof -
    fix u
    have "hd (formatBits u) \<in> set (formatBits u)"
      using formatBits_not_Nil by simp
    then show "hd (formatBits u) \<noteq> CHR ''-''"
      using formatBits_digits [of u] m by auto
  qed
  show "i = j"
  proof (cases "i < 0")
    case True
    show ?thesis
    proof (cases "j < 0")
      case j: True
      from e True j have "formatBits (nat (- i)) = formatBits (nat (- j))"
        by (simp add: FormatInt_def)
      then have "nat (- i) = nat (- j)" by (rule formatBits_inj)
      then show ?thesis using True j by simp
    next
      case j: False
      from e True j have "hd (formatBits (nat j)) = CHR ''-''"
        by (simp add: FormatInt_def) (metis list.sel(1))
      then show ?thesis using hd_pos by simp
    qed
  next
    case False
    show ?thesis
    proof (cases "j < 0")
      case j: True
      from e False j have "hd (formatBits (nat i)) = CHR ''-''"
        by (simp add: FormatInt_def)
      then show ?thesis using hd_pos by simp
    next
      case j: False
      from e False j have "formatBits (nat i) = formatBits (nat j)"
        by (simp add: FormatInt_def)
      then have "nat i = nat j" by (rule formatBits_inj)
      then show ?thesis using False j by simp
    qed
  qed
qed

lemma getShellName_template:
  "getShellName ''USER-docker-apache.bintray.io/beam/go:latest'' = (''USER'', 4)"
  by (simp add: getShellName_def isShellSpecialVar_def isAlphaNum_def)

lemma ExpandEnv_template:
  "ExpandEnv env ''$USER-docker-apache.bintray.io/beam/go:latest'' =
     Getenv env ''USER'' @ ''-docker-apache.bintray.io/beam/go:latest''"
  by (simp add: ExpandEnv_def getShellName_template)

text \<open>Where \<open>IndexByte\<close> finds the byte, and what \<open>Count\<close> counts.\<close>

lemma IndexByte_None_iff: "IndexByte s c = None \<longleftrightarrow> c \<notin> set s"
  by (induction s) auto

lemma IndexByte_Some_decomp:
  "IndexByte s c = Some m \<Longrightarrow> s = take m s @ c # drop (Suc m) s \<and> c \<notin> set (take m s)"
proof (induction s arbitrary: m)
  case Nil
  then show ?case by simp
next
  case (Cons x xs)
  show ?case
  proof (cases "x = c")
    case True
    with Cons.prems show ?thesis by simp
  next
    case False
    with Cons.prems obtain k where k: "IndexByte xs c = Some k" and m: "m = Suc k"
      by auto
    from Cons.IH [OF k] show ?thesis using False m by simp
  qed
qed

lemma IndexByte_append: "c \<notin> set t \<Longrightarrow> IndexByte (t @ c # r) c = Some (length t)"
  by (induction t) auto

lemma Count_notin: "c \<notin> set t \<Longrightarrow> Count (t @ r) c = Count r c"
  by (induction t) (auto simp: Count_def)

lemma Count_zero_iff: "Count s c = 0 \<longleftrightarrow> c \<notin> set s"
  by (induction s) (auto simp: Count_def)

lemma Count_IndexByte:
  assumes "IndexByte s c = Some m"
  shows "Count s c = Suc (Count (drop (Suc m) s) c)"
proof -
  from IndexByte_Some_decomp [OF assms]
  have d: "s = take m s @ c # drop (Suc m) s" and n: "c \<notin> set (take m s)"
    by simp_all
  have "Count s c = Count (take m s @ c # drop (Suc m) s) c"
    using d by simp
  also have "\<dots> = Count (c # drop (Suc m) s) c"
    using n by (rule Count_notin)
  also have "\<dots> = Suc (Count (drop (Suc m) s) c)"
    by (simp add: Count_def)
  finally show ?thesis .
qed

text \<open>The pieces of \<open>genSplit\<close>: at least one, and joined they give the text back.\<close>

lemma genSplit_not_Nil: "genSplit n s c \<noteq> []"
  by (cases n) (auto split: option.splits)

lemma Join_Cons: "ts \<noteq> [] \<Longrightarrow> Join (t # ts) sep = t @ sep @ Join ts sep"
  by (cases ts) simp_all

lemma Join_Nil_iff: "Join ts [c] = [] \<longleftrightarrow> ts = [] \<or> ts = [[]]"
  by (induction ts "[c]" rule: Join.induct) simp_all

lemma Join_genSplit: "Join (genSplit n s c) [c] = s"
proof (induction n arbitrary: s)
  case 0
  show ?case by simp
next
  case (Suc n)
  show ?case
  proof (cases "IndexByte s c")
    case None
    then show ?thesis by simp
  next
    case (Some m)
    from IndexByte_Some_decomp [OF Some]
    have d: "take m s @ c # drop (Suc m) s = s" by simp
    have "Join (genSplit (Suc n) s c) [c] = take m s @ [c] @ Join (genSplit n (drop (Suc m) s) c) [c]"
      using Some by (simp add: Join_Cons genSplit_not_Nil)
    also have "\<dots> = take m s @ c # drop (Suc m) s"
      by (simp add: Suc.IH)
    finally show ?thesis using d by simp
  qed
qed

text \<open>With as many cuts as there are separators, every separator is cut at.\<close>

lemma length_genSplit: "Count s c = n \<Longrightarrow> length (genSplit n s c) = Suc n"
proof (induction n arbitrary: s)
  case 0
  show ?case by simp
next
  case (Suc n)
  then have "c \<in> set s"
    using Count_zero_iff [of s c] by auto
  then obtain m where m: "IndexByte s c = Some m"
    using IndexByte_None_iff [of s c] by auto
  from Count_IndexByte [OF m] Suc.prems have "Count (drop (Suc m) s) c = n"
    by simp
  from Suc.IH [OF this] m show ?case by simp
qed

lemma genSplit_tokens: "Count s c = n \<Longrightarrow> t \<in> set (genSplit n s c) \<Longrightarrow> c \<notin> set t"
proof (induction n arbitrary: s)
  case 0
  then show ?case using Count_zero_iff [of s c] by simp
next
  case (Suc n)
  then have "c \<in> set s"
    using Count_zero_iff [of s c] by auto
  then obtain m where m: "IndexByte s c = Some m"
    using IndexByte_None_iff [of s c] by auto
  from Count_IndexByte [OF m] Suc.prems have k: "Count (drop (Suc m) s) c = n"
    by simp
  from Suc.prems(2) m have "t = take m s \<or> t \<in> set (genSplit n (drop (Suc m) s) c)"
    by simp
  then show ?case
    using IndexByte_Some_decomp [OF m] Suc.IH [OF k] by blast
qed

lemma Split_Join:
  "ts \<noteq> [] \<Longrightarrow> \<forall>t\<in>set ts. c \<notin> set t \<Longrightarrow> Split (Join ts [c]) c = ts"
proof (induction ts "[c]" rule: Join.induct)
  case 1
  then show ?case by simp
next
  case (2 x)
  then have "Count x c = 0" by (simp add: Count_zero_iff)
  then show ?case by (simp add: Split_def)
next
  case (3 x y ys)
  then have x: "c \<notin> set x" and r: "\<forall>t\<in>set (y # ys). c \<notin> set t"
    by simp_all
  have ih: "Split (Join (y # ys) [c]) c = y # ys"
    using 3(1) r by simp
  have cnt: "Count (Join (x # y # ys) [c]) c = Suc (Count (Join (y # ys) [c]) c)"
    using Count_notin [OF x, of "c # Join (y # ys) [c]"] by (simp add: Count_def)
  have idx: "IndexByte (Join (x # y # ys) [c]) c = Some (length x)"
    using IndexByte_append [OF x, of "Join (y # ys) [c]"] by simp
  show ?case
    unfolding Split_def cnt using idx ih by (simp add: Split_def)
qed

lemma Split_not_single_empty: "s \<noteq> [] \<Longrightarrow> Split s c \<noteq> [[]]"
proof
  assume s: "s \<noteq> []" and e: "Split s c = [[]]"
  have "Join (Split s c) [c] = s"
    unfolding Split_def by (rule Join_genSplit)
  with e have "s = []" by simp
  with s show False by simp
qed

subsection \<open>The endpoint\<close>

text \<open>
  C1. Whatever the flags hold: when \<open>Endpoint\<close> is the empty string, \<open>GetEndpoint\<close>
  returns the empty string with an error whose message contains the option's name and
  the flag syntax \<open>--endpoint=<endpoint>\<close>; when it is not empty, \<open>GetEndpoint\<close>
  returns exactly that string with the \<open>nil\<close> error. Neither case changes a flag.
\<close>

theorem GetEndpoint_required:
  "(Endpoint st = [] \<longrightarrow>
      GetEndpoint st =
        (([], Some (Errorf ''no job service endpoint specified. Use --endpoint=<endpoint>'')), st)
      \<and> sublist ''endpoint'' ''no job service endpoint specified. Use --endpoint=<endpoint>''
      \<and> sublist ''--endpoint=<endpoint>''
            ''no job service endpoint specified. Use --endpoint=<endpoint>'')
   \<and> (Endpoint st \<noteq> [] \<longrightarrow> GetEndpoint st = ((Endpoint st, None), st))"
proof -
  have "''no job service endpoint specified. Use --endpoint=<endpoint>'' =
        ''no job service '' @ ''endpoint'' @ '' specified. Use --endpoint=<endpoint>''"
    by simp
  then have a: "sublist ''endpoint'' ''no job service endpoint specified. Use --endpoint=<endpoint>''"
    unfolding sublist_def by blast
  have "''no job service endpoint specified. Use --endpoint=<endpoint>'' =
        ''no job service endpoint specified. Use '' @ ''--endpoint=<endpoint>'' @ []"
    by simp
  then have b: "sublist ''--endpoint=<endpoint>''
                  ''no job service endpoint specified. Use --endpoint=<endpoint>''"
    unfolding sublist_def by blast
  show ?thesis using a b by (simp add: GetEndpoint_def)
qed

theorem GetEndpoint_required_witness:
  "GetEndpoint (flagDefaults :: unit options) =
     (([], Some (Errorf ''no job service endpoint specified. Use --endpoint=<endpoint>'')),
      flagDefaults)
   \<and> GetEndpoint ((flagDefaults :: unit options)\<lparr>Endpoint := ''localhost:8099''\<rparr>) =
     ((''localhost:8099'', None), flagDefaults\<lparr>Endpoint := ''localhost:8099''\<rparr>)"
  using GetEndpoint_required [of "flagDefaults :: unit options"]
    GetEndpoint_required [of "(flagDefaults :: unit options)\<lparr>Endpoint := ''localhost:8099''\<rparr>"]
  by (simp add: flagDefaults_def)

subsection \<open>The job name\<close>

text \<open>
  C2. When \<open>JobName\<close> is the empty string, \<open>GetJobName\<close> returns the literal
  \<open>go-job-\<close> followed by the decimal rendering of the clock's nanosecond count, which
  has at least one character; the result is therefore not empty and starts with the
  literal. The result is stored in \<open>JobName\<close>, and nothing else changes. Two clock
  readings that differ give two names that differ.
\<close>

theorem GetJobName_generated:
  "JobName st = [] \<Longrightarrow>
     fst (GetJobName now st) = ''go-job-'' @ FormatInt (sint now)
     \<and> FormatInt (sint now) \<noteq> []
     \<and> fst (GetJobName now st) \<noteq> []
     \<and> prefix ''go-job-'' (fst (GetJobName now st))
     \<and> snd (GetJobName now st) = st\<lparr>JobName := fst (GetJobName now st)\<rparr>
     \<and> (\<forall>now'. fst (GetJobName now' st) = fst (GetJobName now st) \<longrightarrow> now' = now)"
  by (auto simp add: GetJobName_def FormatInt_not_Nil dest!: FormatInt_inj intro: signed_word_eqI)

theorem GetJobName_generated_witness:
  "fst (GetJobName 42 (flagDefaults :: unit options)) = ''go-job-42''
   \<and> JobName (snd (GetJobName 42 (flagDefaults :: unit options))) = ''go-job-42''"
proof -
  have e: "JobName (flagDefaults :: unit options) = []"
    by (simp add: flagDefaults_def)
  have f: "FormatInt (sint (42 :: 64 word)) = ''42''"
    by (simp add: FormatInt_def formatBits.simps digits_def)
  show ?thesis
    using GetJobName_generated [OF e, of 42] f by simp
qed

text \<open>
  C3. From any flags, and whatever the clock shows at either call, a second call of
  \<open>GetJobName\<close> right after a first one returns the string the first one returned and
  leaves the flags as the first call left them.
\<close>

theorem GetJobName_idempotent:
  "GetJobName t2 (snd (GetJobName t1 st)) = (fst (GetJobName t1 st), snd (GetJobName t1 st))"
  by (simp add: GetJobName_def Let_def FormatInt_not_Nil)

theorem GetJobName_idempotent_witness:
  "GetJobName 7 (snd (GetJobName 42 (flagDefaults :: unit options))) =
     (''go-job-42'', flagDefaults\<lparr>JobName := ''go-job-42''\<rparr>)"
proof -
  have f: "FormatInt (sint (42 :: 64 word)) = ''42''"
    by (simp add: FormatInt_def formatBits.simps digits_def)
  show ?thesis
    using GetJobName_idempotent [of 7 42 "flagDefaults :: unit options"] f
    by (simp add: GetJobName_def flagDefaults_def)
qed

text \<open>
  C4. When \<open>JobName\<close> is not the empty string, \<open>GetJobName\<close> returns it as it is and
  changes no flag.
\<close>

theorem GetJobName_explicit:
  "JobName st \<noteq> [] \<Longrightarrow> GetJobName now st = (JobName st, st)"
  by (simp add: GetJobName_def)

theorem GetJobName_explicit_witness:
  "GetJobName 42 ((flagDefaults :: unit options)\<lparr>JobName := ''my-job''\<rparr>) =
     (''my-job'', flagDefaults\<lparr>JobName := ''my-job''\<rparr>)"
  using GetJobName_explicit [of "(flagDefaults :: unit options)\<lparr>JobName := ''my-job''\<rparr>" 42]
  by simp

subsection \<open>The container image\<close>

text \<open>
  C5. When \<open>ContainerImage\<close> is the empty string, \<open>GetContainerImage\<close> returns the value
  of the environment variable \<open>USER\<close> followed by the literal
  \<open>-docker-apache.bintray.io/beam/go:latest\<close>, which is not the empty string, and stores
  it in \<open>ContainerImage\<close>; apart from that flag and the log, nothing changes. The
  accessor returns a plain string: it has no error result.
\<close>

theorem GetContainerImage_default:
  "ContainerImage st = [] \<Longrightarrow>
     fst (GetContainerImage env ctx st) =
       Getenv env ''USER'' @ ''-docker-apache.bintray.io/beam/go:latest''
     \<and> fst (GetContainerImage env ctx st) \<noteq> []
     \<and> ContainerImage (snd (GetContainerImage env ctx st)) = fst (GetContainerImage env ctx st)
     \<and> snd (GetContainerImage env ctx st) =
         st\<lparr>ContainerImage := fst (GetContainerImage env ctx st),
            Emitted := Emitted (snd (GetContainerImage env ctx st))\<rparr>"
  by (simp add: GetContainerImage_def Let_def ExpandEnv_template)

theorem GetContainerImage_default_witness:
  "fst (GetContainerImage [''USER'' \<mapsto> ''alice''] () flagDefaults) =
     ''alice-docker-apache.bintray.io/beam/go:latest''
   \<and> ContainerImage (snd (GetContainerImage [''USER'' \<mapsto> ''alice''] () flagDefaults)) =
     ''alice-docker-apache.bintray.io/beam/go:latest''"
proof -
  have e: "ContainerImage (flagDefaults :: unit options) = []"
    by (simp add: flagDefaults_def)
  show ?thesis
    using GetContainerImage_default [OF e, of "[''USER'' \<mapsto> ''alice'']" "()"]
    by (simp add: Getenv_def)
qed

text \<open>
  C6. When \<open>ContainerImage\<close> is the empty string, \<open>GetContainerImage\<close> appends exactly
  one entry to the log: informational, in the caller's context, quoting the image it
  returns. A second call right after any first call, in whatever environment and
  context, returns the first call's string and changes nothing, the log included.
  When \<open>ContainerImage\<close> is not the empty string, the log stays as it is.
\<close>

theorem GetContainerImage_emission:
  "(ContainerImage st = [] \<longrightarrow>
      Emitted (snd (GetContainerImage env ctx st)) =
        Emitted st @
          [\<lparr>entry_ctx = ctx, entry_severity = SevInfo,
            entry_msg = ''No container image specified. Using dev image: '' @ [CHR 0x27]
                          @ fst (GetContainerImage env ctx st) @ [CHR 0x27]\<rparr>]
      \<and> length (Emitted (snd (GetContainerImage env ctx st))) = Suc (length (Emitted st)))
   \<and> GetContainerImage env' ctx' (snd (GetContainerImage env ctx st)) =
       (fst (GetContainerImage env ctx st), snd (GetContainerImage env ctx st))
   \<and> (ContainerImage st \<noteq> [] \<longrightarrow> Emitted (snd (GetContainerImage env ctx st)) = Emitted st)"
  by (simp add: GetContainerImage_def Let_def ExpandEnv_template Infof_def)

theorem GetContainerImage_emission_witness:
  "Emitted (snd (GetContainerImage [''USER'' \<mapsto> ''bob''] () flagDefaults)) =
     [\<lparr>entry_ctx = (), entry_severity = SevInfo,
       entry_msg = ''No container image specified. Using dev image: '' @ [CHR 0x27]
                     @ ''bob-docker-apache.bintray.io/beam/go:latest'' @ [CHR 0x27]\<rparr>]
   \<and> Emitted (snd (GetContainerImage Map.empty ()
                 (snd (GetContainerImage [''USER'' \<mapsto> ''bob''] () flagDefaults)))) =
     Emitted (snd (GetContainerImage [''USER'' \<mapsto> ''bob''] () flagDefaults))
   \<and> Emitted (snd (GetContainerImage [''USER'' \<mapsto> ''bob''] ()
                 ((flagDefaults :: unit options)\<lparr>ContainerImage := ''gcr.io/x/y:1''\<rparr>))) = []"
proof -
  have img: "fst (GetContainerImage [''USER'' \<mapsto> ''bob''] () (flagDefaults :: unit options)) =
               ''bob-docker-apache.bintray.io/beam/go:latest''"
    by (simp add: GetContainerImage_def Let_def ExpandEnv_template flagDefaults_def Getenv_def)
  show ?thesis
    using
      GetContainerImage_emission [of "flagDefaults :: unit options" "[''USER'' \<mapsto> ''bob'']" "()"
        Map.empty "()"]
      GetContainerImage_emission [of "(flagDefaults :: unit options)\<lparr>ContainerImage := ''gcr.io/x/y:1''\<rparr>"
        "[''USER'' \<mapsto> ''bob'']" "()" Map.empty "()"]
      img
    by (simp add: flagDefaults_def)
qed

text \<open>
  C7. When \<open>ContainerImage\<close> is the empty string and the environment variable \<open>USER\<close>
  is not set, or set to the empty string, \<open>GetContainerImage\<close> still returns: the
  user's part of the image reference is empty, and the result is the literal
  \<open>-docker-apache.bintray.io/beam/go:latest\<close>, which is not the empty string.
\<close>

theorem GetContainerImage_without_USER:
  "ContainerImage st = [] \<Longrightarrow> env ''USER'' = None \<or> env ''USER'' = Some [] \<Longrightarrow>
     fst (GetContainerImage env ctx st) = ''-docker-apache.bintray.io/beam/go:latest''
     \<and> fst (GetContainerImage env ctx st) \<noteq> []
     \<and> ContainerImage (snd (GetContainerImage env ctx st)) =
         ''-docker-apache.bintray.io/beam/go:latest''"
  by (auto simp add: GetContainerImage_def Let_def ExpandEnv_template Getenv_def)

theorem GetContainerImage_without_USER_witness:
  "fst (GetContainerImage Map.empty () flagDefaults) = ''-docker-apache.bintray.io/beam/go:latest''
   \<and> fst (GetContainerImage [''USER'' \<mapsto> []] () flagDefaults) =
       ''-docker-apache.bintray.io/beam/go:latest''"
proof -
  have e: "ContainerImage (flagDefaults :: unit options) = []"
    by (simp add: flagDefaults_def)
  have a: "(Map.empty :: environ) ''USER'' = None \<or> (Map.empty :: environ) ''USER'' = Some []"
    by simp
  have b: "[''USER'' \<mapsto> []] ''USER'' = None \<or> [''USER'' \<mapsto> []] ''USER'' = Some []"
    by simp
  show ?thesis
    using
      GetContainerImage_without_USER [of "flagDefaults :: unit options" Map.empty "()"]
      GetContainerImage_without_USER [of "flagDefaults :: unit options" "[''USER'' \<mapsto> []]" "()"]
      e a b
    by simp
qed

subsection \<open>The experiments\<close>

text \<open>
  C8. \<open>GetExperiments\<close> gives no experiments for the empty string, \<open>a\<close>, \<open>b\<close>, \<open>c\<close> for
  \<open>a,b,c\<close>, \<open>a\<close>, the empty token, \<open>b\<close> for \<open>a,,b\<close>, and \<open>a\<close>, the empty token for \<open>a,\<close>.
  It never gives the single empty token, and no token it gives contains a comma.
  Whatever tokens without commas are joined by commas into the flag, unless they are
  none or the single empty token, \<open>GetExperiments\<close> gives exactly these tokens back, in
  their order: nothing is trimmed, dropped or merged.
\<close>

theorem GetExperiments_split:
  "fst (GetExperiments (st\<lparr>Experiments := []\<rparr>)) = []
   \<and> fst (GetExperiments (st\<lparr>Experiments := ''a,b,c''\<rparr>)) = [''a'', ''b'', ''c'']
   \<and> fst (GetExperiments (st\<lparr>Experiments := ''a,,b''\<rparr>)) = [''a'', [], ''b'']
   \<and> fst (GetExperiments (st\<lparr>Experiments := ''a,''\<rparr>)) = [''a'', []]
   \<and> fst (GetExperiments st) \<noteq> [[]]
   \<and> (\<forall>t\<in>set (fst (GetExperiments st)). CHR '','' \<notin> set t)
   \<and> (ts \<noteq> [] \<and> ts \<noteq> [[]] \<and> (\<forall>t\<in>set ts. CHR '','' \<notin> set t) \<longrightarrow>
        fst (GetExperiments (st\<lparr>Experiments := Join ts '',''\<rparr>)) = ts)"
proof -
  have ex: "fst (GetExperiments (st\<lparr>Experiments := []\<rparr>)) = []"
    "fst (GetExperiments (st\<lparr>Experiments := ''a,b,c''\<rparr>)) = [''a'', ''b'', ''c'']"
    "fst (GetExperiments (st\<lparr>Experiments := ''a,,b''\<rparr>)) = [''a'', [], ''b'']"
    "fst (GetExperiments (st\<lparr>Experiments := ''a,''\<rparr>)) = [''a'', []]"
    by (simp_all add: GetExperiments_def Split_def Count_def)
  have ne: "fst (GetExperiments st) \<noteq> [[]]"
    by (simp add: GetExperiments_def Split_not_single_empty)
  have tok: "\<forall>t\<in>set (fst (GetExperiments st)). CHR '','' \<notin> set t"
    using genSplit_tokens [of "Experiments st" "CHR '',''" "Count (Experiments st) (CHR '','')"]
    by (auto simp add: GetExperiments_def Split_def)
  have rt: "ts \<noteq> [] \<and> ts \<noteq> [[]] \<and> (\<forall>t\<in>set ts. CHR '','' \<notin> set t) \<longrightarrow>
        fst (GetExperiments (st\<lparr>Experiments := Join ts '',''\<rparr>)) = ts"
    using Split_Join [of ts "CHR '',''"] Join_Nil_iff [of ts "CHR '',''"]
    by (simp add: GetExperiments_def)
  show ?thesis using ex ne tok rt by blast
qed

theorem GetExperiments_split_witness:
  "fst (GetExperiments ((flagDefaults :: unit options)\<lparr>Experiments := ''x, y ,''\<rparr>)) =
     [''x'', '' y '', []]"
  using GetExperiments_split [of "flagDefaults :: unit options" "[''x'', '' y '', []]"]
  by simp

text \<open>
  C9. \<open>GetExperiments\<close> changes no flag and nothing else. When the flag held \<open>v1\<close> at a
  first call and is set to \<open>v2\<close> before a second one, the second call gives the split of
  \<open>v2\<close>, the same as a call that never saw \<open>v1\<close>.
\<close>

theorem GetExperiments_no_cache:
  "snd (GetExperiments st) = st
   \<and> fst (GetExperiments ((snd (GetExperiments (st\<lparr>Experiments := v1\<rparr>)))\<lparr>Experiments := v2\<rparr>)) =
       (if v2 = [] then [] else Split v2 (CHR '',''))
   \<and> fst (GetExperiments ((snd (GetExperiments (st\<lparr>Experiments := v1\<rparr>)))\<lparr>Experiments := v2\<rparr>)) =
       fst (GetExperiments (st\<lparr>Experiments := v2\<rparr>))"
  by (simp add: GetExperiments_def)

theorem GetExperiments_no_cache_witness:
  "fst (GetExperiments
         ((snd (GetExperiments ((flagDefaults :: unit options)\<lparr>Experiments := ''a,b''\<rparr>)))
            \<lparr>Experiments := ''c''\<rparr>)) = [''c'']"
  using GetExperiments_no_cache
    [where st = "flagDefaults :: unit options" and ?v1.0 = "''a,b''" and ?v2.0 = "''c''"]
  by (simp add: Split_def Count_def)

text \<open>
  C10. When \<open>Experiments\<close> is not the empty string, the tokens \<open>GetExperiments\<close> gives,
  joined by single commas, are the flag's text again; there is at least one token, and
  there is one token more than there are commas in the text.
\<close>

theorem GetExperiments_roundtrip:
  "Experiments st \<noteq> [] \<Longrightarrow>
     Join (fst (GetExperiments st)) '','' = Experiments st
     \<and> fst (GetExperiments st) \<noteq> []
     \<and> length (fst (GetExperiments st)) = Count (Experiments st) (CHR '','') + 1"
  by (simp add: GetExperiments_def Split_def Join_genSplit genSplit_not_Nil length_genSplit)

theorem GetExperiments_roundtrip_witness:
  "Join (fst (GetExperiments ((flagDefaults :: unit options)\<lparr>Experiments := ''a,,b''\<rparr>))) '','' = ''a,,b''
   \<and> length (fst (GetExperiments ((flagDefaults :: unit options)\<lparr>Experiments := ''a,,b''\<rparr>))) = 3"
  using GetExperiments_roundtrip [of "(flagDefaults :: unit options)\<lparr>Experiments := ''a,,b''\<rparr>"]
  by (simp add: Count_def)

end
